theory Spec2Isabelle
  imports Complex_Main "HOL-Library.AList"
begin

section \<open>Values of the host language\<close>

text \<open>
  Elements travel through the front end as untyped JSON values (\<^verbatim>\<open>any\<close> in the source).
  Strings are lists of code units; numbers inside JSON values are integers (the numeric
  claims on viewports use exact rationals, see further down). A property read
  \<^verbatim>\<open>el.k\<close> yields \<open>None\<close> for \<^verbatim>\<open>undefined\<close>; reading a property of \<^verbatim>\<open>null\<close>
  throws a TypeError, which the loops below return as a value.
\<close>

datatype json =
    JNull
  | JBool bool
  | JNum int
  | JStr string
  | JArr "json list"
  | JObj "(string \<times> json) list"

datatype error = TypeError

text \<open>\<^verbatim>\<open>el.k\<close> for a value that is not \<^verbatim>\<open>null\<close> (keys such as \<^verbatim>\<open>length\<close> are never read).\<close>

fun getp :: "json \<Rightarrow> string \<Rightarrow> json option" where
  "getp (JObj kvs) k = map_of kvs k"
| "getp _ k = None"

text \<open>Truthiness of a value, \<open>None\<close> being \<^verbatim>\<open>undefined\<close>.\<close>

fun truthy :: "json option \<Rightarrow> bool" where
  "truthy None = False"
| "truthy (Some JNull) = False"
| "truthy (Some (JBool b)) = b"
| "truthy (Some (JNum n)) = (n \<noteq> 0)"
| "truthy (Some (JStr s)) = (s \<noteq> [])"
| "truthy (Some (JArr xs)) = True"
| "truthy (Some (JObj kvs)) = True"

text \<open>The left operand of \<^verbatim>\<open>??\<close> is skipped when it is \<^verbatim>\<open>null\<close> or \<^verbatim>\<open>undefined\<close>.\<close>

definition nullish :: "json option \<Rightarrow> bool" where
  "nullish v = (v = None \<or> v = Some JNull)"

definition coalesce :: "json option \<Rightarrow> json option \<Rightarrow> json option" where
  "coalesce a b = (if nullish a then b else a)"

subsection \<open>Strings\<close>

definition digit_char :: "nat \<Rightarrow> char" where
  "digit_char d = char_of (48 + d)"

fun show_nat :: "nat \<Rightarrow> string" where
  "show_nat n = (if n < 10 then [digit_char n] else show_nat (n div 10) @ [digit_char (n mod 10)])"

declare show_nat.simps [simp del]

definition show_int :: "int \<Rightarrow> string" where
  "show_int i = (if i < 0 then CHR ''-'' # show_nat (nat (- i)) else show_nat (nat i))"

definition join_comma :: "string list \<Rightarrow> string" where
  "join_comma ss = concat (case ss of [] \<Rightarrow> [] | s # rest \<Rightarrow> s # map (\<lambda>t. CHR '','' # t) rest)"

text \<open>
  \<^verbatim>\<open>String(v)\<close>: an array prints its elements joined by commas, with \<^verbatim>\<open>null\<close> as the
  empty string; an object prints as a fixed marker; an integer prints in plain decimal.
\<close>

fun String_json :: "json \<Rightarrow> string" where
  "String_json JNull = ''null''"
| "String_json (JBool b) = (if b then ''true'' else ''false'')"
| "String_json (JNum n) = show_int n"
| "String_json (JStr s) = s"
| "String_json (JArr xs) = join_comma (map (\<lambda>x. if x = JNull then [] else String_json x) xs)"
| "String_json (JObj kvs) = ''[object Object]''"

definition String_js :: "json option \<Rightarrow> string" where
  "String_js v = (case v of None \<Rightarrow> ''undefined'' | Some j \<Rightarrow> String_json j)"

text \<open>White space as \<^verbatim>\<open>trim\<close> sees it, on code units below 256.\<close>

definition is_space :: "char \<Rightarrow> bool" where
  "is_space c = (of_char c \<in> {9, 10, 11, 12, 13, 32, 160 :: nat})"

definition trim :: "string \<Rightarrow> string" where
  "trim s = rev (dropWhile is_space (rev (dropWhile is_space s)))"

definition startsWith :: "string \<Rightarrow> string \<Rightarrow> bool" where
  "startsWith s p = (take (length p) s = p)"

text \<open>\<^verbatim>\<open>s.lastIndexOf(c)\<close> for a single character: the last position of \<open>c\<close>, or \<open>-1\<close>.\<close>

definition lastIndexOf :: "string \<Rightarrow> char \<Rightarrow> int" where
  "lastIndexOf s c =
     (if c \<in> set s then int (length s) - 1 - int (length (takeWhile (\<lambda>x. x \<noteq> c) (rev s)))
      else - 1)"

text \<open>\<^verbatim>\<open>s.substring(0, e)\<close>; a negative end counts as zero.\<close>

definition substring0 :: "string \<Rightarrow> int \<Rightarrow> string" where
  "substring0 s e = take (nat e) s"

text \<open>\<^verbatim>\<open>s.split(",")\<close>: always at least one piece.\<close>

fun split_comma :: "string \<Rightarrow> string list" where
  "split_comma [] = [[]]"
| "split_comma (c # cs) =
     (if c = CHR '','' then [] # split_comma cs
      else (case split_comma cs of [] \<Rightarrow> [[c]] | w # ws \<Rightarrow> (c # w) # ws))"

section \<open>Shared helpers\<close>

text \<open>
  \<^verbatim>\<open>parsePartialElements\<close>. The platform's \<^verbatim>\<open>JSON.parse\<close> is the parameter \<open>parse\<close>;
  \<open>None\<close> stands for the SyntaxError it throws. The argument is \<open>None\<close> when the caller
  passes \<^verbatim>\<open>undefined\<close>.
\<close>

definition parsePartialElements :: "(string \<Rightarrow> json option) \<Rightarrow> string option \<Rightarrow> json" where
  "parsePartialElements parse str =
     (case str of
        None \<Rightarrow> JArr []
      | Some s \<Rightarrow>
          if \<not> startsWith (trim s) ''['' then JArr []
          else (case parse s of
                  Some v \<Rightarrow> v
                | None \<Rightarrow>
                    (let last_i = lastIndexOf s (CHR ''}'') in
                     if last_i < 0 then JArr []
                     else (case parse (substring0 s (last_i + 1) @ '']'') of
                             Some v \<Rightarrow> v
                           | None \<Rightarrow> JArr []))))"

text \<open>\<^verbatim>\<open>excludeIncompleteLastItem\<close>; \<^verbatim>\<open>arr.slice(0, -1)\<close> is \<open>butlast\<close>.\<close>

definition excludeIncompleteLastItem :: "'a list \<Rightarrow> 'a list" where
  "excludeIncompleteLastItem arr =
     (if length arr = 0 then []
      else if length arr \<le> 1 then []
      else butlast arr)"

section \<open>Pseudo-element classifier\<close>

record 'a ViewportRect =
  vp_x :: 'a
  vp_y :: 'a
  vp_width :: 'a
  vp_height :: 'a

record extracted =
  viewport :: "json option ViewportRect option"
  drawElements :: "json list"
  restoreId :: "json option"
  deleteIds :: "string set"

text \<open>The rectangle literal built from a camera element's four fields.\<close>

definition rect_of :: "json \<Rightarrow> json option ViewportRect" where
  "rect_of el = \<lparr> vp_x = getp el ''x'', vp_y = getp el ''y'',
                  vp_width = getp el ''width'', vp_height = getp el ''height'' \<rparr>"

text \<open>The identifiers one delete directive names: \<^verbatim>\<open>String(el.ids ?? el.id).split(",")\<close>, each trimmed.\<close>

definition delete_ids_of :: "json \<Rightarrow> string list" where
  "delete_ids_of el = map trim (split_comma (String_js (coalesce (getp el ''ids'') (getp el ''id''))))"

text \<open>\<^verbatim>\<open>deleteIds.has(v)\<close> on a set that holds strings only.\<close>

definition has :: "string set \<Rightarrow> json option \<Rightarrow> bool" where
  "has S v = (case v of Some (JStr s) \<Rightarrow> s \<in> S | _ \<Rightarrow> False)"

text \<open>
  Own enumerable properties as the spread \<^verbatim>\<open>{...el}\<close> copies them: an object's entries,
  an array's or a string's indexed entries, nothing for the other values.
\<close>

fun spread :: "json \<Rightarrow> (string \<times> json) list" where
  "spread (JObj kvs) = kvs"
| "spread (JArr xs) = map (\<lambda>i. (show_nat i, xs ! i)) [0..<length xs]"
| "spread (JStr s) = map (\<lambda>i. (show_nat i, JStr [s ! i])) [0..<length s]"
| "spread _ = []"

text \<open>\<^verbatim>\<open>{...el, k: v}\<close>: the key keeps its place when present and is appended otherwise.\<close>

definition with_field :: "json \<Rightarrow> string \<Rightarrow> json \<Rightarrow> json" where
  "with_field el k v = JObj (AList.update k v (spread el))"

definition empty_extracted :: extracted where
  "empty_extracted = \<lparr> viewport = None, drawElements = [], restoreId = Some JNull, deleteIds = {} \<rparr>"

text \<open>The \<^verbatim>\<open>for (const el of elements)\<close> loop of \<^verbatim>\<open>extractViewportAndElements\<close>.\<close>

fun classify_loop :: "json list \<Rightarrow> extracted \<Rightarrow> error + extracted" where
  "classify_loop [] acc = Inr acc"
| "classify_loop (el # els) acc =
     (if el = JNull then Inl TypeError
      else if getp el ''type'' = Some (JStr ''cameraUpdate'') then
        classify_loop els (acc\<lparr>viewport := Some (rect_of el)\<rparr>)
      else if getp el ''type'' = Some (JStr ''restoreCheckpoint'') then
        classify_loop els (acc\<lparr>restoreId := getp el ''id''\<rparr>)
      else if getp el ''type'' = Some (JStr ''delete'') then
        classify_loop els (acc\<lparr>deleteIds := deleteIds acc \<union> set (delete_ids_of el)\<rparr>)
      else
        classify_loop els (acc\<lparr>drawElements := drawElements acc @ [el]\<rparr>))"

text \<open>The tombstone step: a targeted element gets opacity 1, every other is kept as it is.\<close>

definition tombstone :: "string set \<Rightarrow> json \<Rightarrow> json" where
  "tombstone ids el =
     (if has ids (getp el ''id'') \<or> has ids (getp el ''containerId'')
      then with_field el ''opacity'' (JNum 1) else el)"

definition extractViewportAndElements :: "json list \<Rightarrow> error + extracted" where
  "extractViewportAndElements elements =
     (case classify_loop elements empty_extracted of
        Inl e \<Rightarrow> Inl e
      | Inr r \<Rightarrow>
          Inr (r\<lparr>drawElements :=
                  (if deleteIds r \<noteq> {} then map (tombstone (deleteIds r)) (drawElements r)
                   else drawElements r)\<rparr>))"

subsection \<open>The classification as the specification words it\<close>

text \<open>
  The four buckets of the specification: an element is a directive exactly when its type
  tag is one of the three reserved values, and a drawable otherwise. \<open>classified\<close> states
  the result of one pass over \<open>els\<close> without the loop: the last viewport and restore
  directive win, the delete identifiers accumulate, the drawables keep their order.
\<close>

datatype kind = ViewportUpdate | RestoreCheckpoint | Delete | Drawable

definition kind_of :: "json \<Rightarrow> kind" where
  "kind_of el =
     (if getp el ''type'' = Some (JStr ''cameraUpdate'') then ViewportUpdate
      else if getp el ''type'' = Some (JStr ''restoreCheckpoint'') then RestoreCheckpoint
      else if getp el ''type'' = Some (JStr ''delete'') then Delete
      else Drawable)"

definition of_kind :: "kind \<Rightarrow> json list \<Rightarrow> json list" where
  "of_kind k els = filter (\<lambda>el. kind_of el = k) els"

definition classified :: "json list \<Rightarrow> extracted \<Rightarrow> extracted" where
  "classified els acc =
     \<lparr> viewport = (if of_kind ViewportUpdate els = [] then viewport acc
                     else Some (rect_of (last (of_kind ViewportUpdate els)))),
       drawElements = drawElements acc @ of_kind Drawable els,
       restoreId = (if of_kind RestoreCheckpoint els = [] then restoreId acc
                     else getp (last (of_kind RestoreCheckpoint els)) ''id''),
       deleteIds = deleteIds acc \<union> (\<Union>el \<in> set (of_kind Delete els). set (delete_ids_of el)) \<rparr>"

section \<open>JSON text\<close>

text \<open>
  A model of the platform's \<^verbatim>\<open>JSON.parse\<close> and \<^verbatim>\<open>JSON.stringify\<close> on the values above:
  a lexer, a pushdown parser over the tokens, and the serialiser. Numbers are integers
  in plain decimal (a number with a fraction or an exponent is outside the model and is
  refused), code units are below 256 (a \<^verbatim>\<open>\u\<close> escape above that is refused), and an
  object keeps its members in the order of the text.
\<close>

datatype token =
    TLBracket | TRBracket | TLBrace | TRBrace | TComma | TColon
  | TNull | TTrue | TFalse
  | TNumber int
  | TString string

subsection \<open>Lexer\<close>

definition is_json_space :: "char \<Rightarrow> bool" where
  "is_json_space c = (c = CHR 0x20 \<or> c = CHR 0x09 \<or> c = CHR 0x0A \<or> c = CHR 0x0D)"

definition is_digit :: "char \<Rightarrow> bool" where
  "is_digit c = (48 \<le> (of_char c :: nat) \<and> (of_char c :: nat) \<le> 57)"

definition digit_val :: "char \<Rightarrow> nat" where
  "digit_val c = of_char c - 48"

definition nat_of_digits :: "string \<Rightarrow> nat" where
  "nat_of_digits ds = foldl (\<lambda>a c. 10 * a + digit_val c) 0 ds"

definition hex_val :: "char \<Rightarrow> nat option" where
  "hex_val c =
     (let n = (of_char c :: nat) in
      if 48 \<le> n \<and> n \<le> 57 then Some (n - 48)
      else if 97 \<le> n \<and> n \<le> 102 then Some (n - 87)
      else if 65 \<le> n \<and> n \<le> 70 then Some (n - 55)
      else None)"

definition hex_digit :: "nat \<Rightarrow> char" where
  "hex_digit n = (if n < 10 then char_of (48 + n) else char_of (87 + n))"

text \<open>The character a one-letter escape stands for.\<close>

definition unescape :: "char \<Rightarrow> char option" where
  "unescape e =
     (if e = CHR 0x22 then Some (CHR 0x22)
      else if e = CHR 0x5C then Some (CHR 0x5C)
      else if e = CHR ''/'' then Some (CHR ''/'')
      else if e = CHR ''b'' then Some (CHR 0x08)
      else if e = CHR ''f'' then Some (CHR 0x0C)
      else if e = CHR ''n'' then Some (CHR 0x0A)
      else if e = CHR ''r'' then Some (CHR 0x0D)
      else if e = CHR ''t'' then Some (CHR 0x09)
      else None)"

text \<open>The code unit of four hexadecimal digits.\<close>

definition unicode_escape :: "string \<Rightarrow> char option" where
  "unicode_escape cs =
     (case cs of
        a # b # c # d # _ \<Rightarrow>
          (case hex_val a of None \<Rightarrow> None | Some a' \<Rightarrow>
           case hex_val b of None \<Rightarrow> None | Some b' \<Rightarrow>
           case hex_val c of None \<Rightarrow> None | Some c' \<Rightarrow>
           case hex_val d of None \<Rightarrow> None | Some d' \<Rightarrow>
             (let n = ((a' * 16 + b') * 16 + c') * 16 + d' in
              if n < 256 then Some (char_of n) else None))
      | _ \<Rightarrow> None)"

text \<open>A string literal after its opening quote: the string, and the text after the closing quote.\<close>

fun lex_string :: "string \<Rightarrow> (string \<times> string) option" where
  "lex_string [] = None"
| "lex_string (c # cs) =
     (if c = CHR 0x22 then Some ([], cs)
      else if c = CHR 0x5C then
        (case cs of
           [] \<Rightarrow> None
         | e # cs' \<Rightarrow>
             if e = CHR ''u'' then
               (case unicode_escape cs' of
                  None \<Rightarrow> None
                | Some ch \<Rightarrow> map_option (\<lambda>(s, r). (ch # s, r)) (lex_string (drop 4 cs')))
             else
               (case unescape e of
                  None \<Rightarrow> None
                | Some ch \<Rightarrow> map_option (\<lambda>(s, r). (ch # s, r)) (lex_string cs')))
      else if (of_char c :: nat) < 32 then None
      else map_option (\<lambda>(s, r). (c # s, r)) (lex_string cs))"

text \<open>
  A number: an optional minus sign and digits without a leading zero. A fraction or an
  exponent is refused.
\<close>

definition lex_number :: "string \<Rightarrow> (int \<times> string) option" where
  "lex_number cs =
     (let neg = (case cs of [] \<Rightarrow> False | c # _ \<Rightarrow> c = CHR ''-'');
          body = (if neg then tl cs else cs);
          ds = takeWhile is_digit body;
          rest = dropWhile is_digit body
      in if ds = [] then None
         else if hd ds = CHR ''0'' \<and> length ds > 1 then None
         else if (case rest of [] \<Rightarrow> False | c # _ \<Rightarrow> c = CHR ''.'' \<or> c = CHR ''e'' \<or> c = CHR ''E'') then None
         else Some (if neg then - int (nat_of_digits ds) else int (nat_of_digits ds), rest))"

text \<open>The first token of a text that does not start with white space, and the text after it.\<close>

definition lex_token :: "string \<Rightarrow> (token \<times> string) option" where
  "lex_token s =
     (case s of
        [] \<Rightarrow> None
      | c # cs \<Rightarrow>
          if c = CHR ''['' then Some (TLBracket, cs)
          else if c = CHR '']'' then Some (TRBracket, cs)
          else if c = CHR ''{'' then Some (TLBrace, cs)
          else if c = CHR ''}'' then Some (TRBrace, cs)
          else if c = CHR '','' then Some (TComma, cs)
          else if c = CHR '':'' then Some (TColon, cs)
          else if c = CHR 0x22 then
            (case lex_string cs of None \<Rightarrow> None | Some (str, rest) \<Rightarrow> Some (TString str, rest))
          else if c = CHR ''-'' \<or> is_digit c then
            (case lex_number (c # cs) of None \<Rightarrow> None | Some (n, rest) \<Rightarrow> Some (TNumber n, rest))
          else if take 4 (c # cs) = ''null'' then Some (TNull, drop 3 cs)
          else if take 4 (c # cs) = ''true'' then Some (TTrue, drop 3 cs)
          else if take 5 (c # cs) = ''false'' then Some (TFalse, drop 4 cs)
          else None)"

text \<open>
  The tokens of a text. The fuel bounds the number of tokens; the length of the text
  is always enough.
\<close>

fun lex_fuel :: "nat \<Rightarrow> string \<Rightarrow> token list option" where
  "lex_fuel 0 s = (if dropWhile is_json_space s = [] then Some [] else None)"
| "lex_fuel (Suc n) s =
     (case dropWhile is_json_space s of
        [] \<Rightarrow> Some []
      | c # cs \<Rightarrow>
          (case lex_token (c # cs) of
             None \<Rightarrow> None
           | Some (t, rest) \<Rightarrow> map_option ((#) t) (lex_fuel n rest)))"

definition lex :: "string \<Rightarrow> token list option" where
  "lex s = lex_fuel (length s) s"

subsection \<open>Parser\<close>

text \<open>
  The open containers: an array with the elements read so far, or an object with the
  members read so far and the key whose value is being read.
\<close>

datatype frame = FArr "json list" | FObj "(string \<times> json) list" string

datatype pstate =
    PValue "frame list"
  | PArrStart "frame list"
  | PObjStart "frame list"
  | PKey "(string \<times> json) list" "frame list"
  | PColon "(string \<times> json) list" string "frame list"
  | PAfterArr "json list" "frame list"
  | PAfterObj "(string \<times> json) list" "frame list"
  | PDone json

text \<open>A finished value goes to the innermost open container; a repeated key keeps its place and takes the later value.\<close>

fun complete :: "json \<Rightarrow> frame list \<Rightarrow> pstate" where
  "complete v [] = PDone v"
| "complete v (FArr xs # st) = PAfterArr (xs @ [v]) st"
| "complete v (FObj kvs k # st) = PAfterObj (AList.update k v kvs) st"

fun value_start :: "frame list \<Rightarrow> token \<Rightarrow> pstate option" where
  "value_start st TLBracket = Some (PArrStart st)"
| "value_start st TLBrace = Some (PObjStart st)"
| "value_start st TNull = Some (complete JNull st)"
| "value_start st TTrue = Some (complete (JBool True) st)"
| "value_start st TFalse = Some (complete (JBool False) st)"
| "value_start st (TNumber n) = Some (complete (JNum n) st)"
| "value_start st (TString s) = Some (complete (JStr s) st)"
| "value_start st _ = None"

fun step :: "pstate \<Rightarrow> token \<Rightarrow> pstate option" where
  "step (PValue st) t = value_start st t"
| "step (PArrStart st) t =
     (if t = TRBracket then Some (complete (JArr []) st) else value_start (FArr [] # st) t)"
| "step (PObjStart st) t =
     (case t of TRBrace \<Rightarrow> Some (complete (JObj []) st)
              | TString k \<Rightarrow> Some (PColon [] k st)
              | _ \<Rightarrow> None)"
| "step (PKey kvs st) t = (case t of TString k \<Rightarrow> Some (PColon kvs k st) | _ \<Rightarrow> None)"
| "step (PColon kvs k st) t = (if t = TColon then Some (PValue (FObj kvs k # st)) else None)"
| "step (PAfterArr xs st) t =
     (case t of TComma \<Rightarrow> Some (PValue (FArr xs # st))
              | TRBracket \<Rightarrow> Some (complete (JArr xs) st)
              | _ \<Rightarrow> None)"
| "step (PAfterObj kvs st) t =
     (case t of TComma \<Rightarrow> Some (PKey kvs st)
              | TRBrace \<Rightarrow> Some (complete (JObj kvs) st)
              | _ \<Rightarrow> None)"
| "step (PDone v) t = None"

fun run :: "pstate \<Rightarrow> token list \<Rightarrow> pstate option" where
  "run s [] = Some s"
| "run s (t # ts) = (case step s t of None \<Rightarrow> None | Some s' \<Rightarrow> run s' ts)"

definition parse_tokens :: "token list \<Rightarrow> json option" where
  "parse_tokens ts = (case run (PValue []) ts of Some (PDone v) \<Rightarrow> Some v | _ \<Rightarrow> None)"

definition JSON_parse :: "string \<Rightarrow> json option" where
  "JSON_parse s = (case lex s of None \<Rightarrow> None | Some ts \<Rightarrow> parse_tokens ts)"

subsection \<open>Serialiser\<close>

definition escape_char :: "char \<Rightarrow> string" where
  "escape_char c =
     (if c = CHR 0x22 then [CHR 0x5C, CHR 0x22]
      else if c = CHR 0x5C then [CHR 0x5C, CHR 0x5C]
      else if c = CHR 0x08 then [CHR 0x5C, CHR ''b'']
      else if c = CHR 0x0C then [CHR 0x5C, CHR ''f'']
      else if c = CHR 0x0A then [CHR 0x5C, CHR ''n'']
      else if c = CHR 0x0D then [CHR 0x5C, CHR ''r'']
      else if c = CHR 0x09 then [CHR 0x5C, CHR ''t'']
      else if (of_char c :: nat) < 32 then
        [CHR 0x5C, CHR ''u'', CHR ''0'', CHR ''0'',
         hex_digit (of_char c div 16), hex_digit (of_char c mod 16)]
      else [c])"

definition quote :: "string \<Rightarrow> string" where
  "quote s = CHR 0x22 # concat (map escape_char s) @ [CHR 0x22]"



section \<open>In-memory checkpoint store\<close>




section \<open>Token view of the serialiser\<close>

text \<open>
  Proof-side definitions: the tokens a value prints as, and the text of a token. They are
  related to \<^verbatim>\<open>JSON_stringify\<close> by a lemma and are used to reason about the lexer and the
  parser separately.
\<close>

text \<open>A text that may follow a number: it does not continue the number.\<close>

definition number_end :: "string \<Rightarrow> bool" where
  "number_end w = (case w of [] \<Rightarrow> True
                    | c # _ \<Rightarrow> \<not> is_digit c \<and> c \<noteq> CHR ''.'' \<and> c \<noteq> CHR ''e'' \<and> c \<noteq> CHR ''E'')"

fun token_text :: "token \<Rightarrow> string" where
  "token_text TLBracket = ''[''"
| "token_text TRBracket = '']''"
| "token_text TLBrace = ''{''"
| "token_text TRBrace = ''}''"
| "token_text TComma = '',''"
| "token_text TColon = '':''"
| "token_text TNull = ''null''"
| "token_text TTrue = ''true''"
| "token_text TFalse = ''false''"
| "token_text (TNumber n) = show_int n"
| "token_text (TString s) = quote s"

definition text_of :: "token list \<Rightarrow> string" where
  "text_of ts = concat (map token_text ts)"


definition commas :: "token list list \<Rightarrow> token list" where
  "commas tss = concat (map (\<lambda>u. TComma # u) tss)"






section \<open>Parser states along a cut token list\<close>

text \<open>Proof-side definitions: the open containers of a parser state, and whether it is final.\<close>

fun stack_of :: "pstate \<Rightarrow> frame list" where
  "stack_of (PValue st) = st"
| "stack_of (PArrStart st) = st"
| "stack_of (PObjStart st) = st"
| "stack_of (PKey kvs st) = st"
| "stack_of (PColon kvs k st) = st"
| "stack_of (PAfterArr xs st) = st"
| "stack_of (PAfterObj kvs st) = st"
| "stack_of (PDone v) = []"

fun is_done :: "pstate \<Rightarrow> bool" where
  "is_done (PDone v) = True"
| "is_done _ = False"

text \<open>A state that is not final and still has the containers \<open>B\<close> open.\<close>

definition above :: "frame list \<Rightarrow> pstate \<Rightarrow> bool" where
  "above B s = (\<not> is_done s \<and> (\<exists>st. stack_of s = st @ B))"


section \<open>Viewport mapping and animation\<close>

text \<open>
  The numeric fields of a viewport are modelled as exact rationals: the arithmetic of the
  source is carried out without the rounding of double-precision numbers. A quotient
  keeps the three special results of a division by zero.
\<close>

datatype quotient = Finite rat | PlusInfinity | MinusInfinity | NotANumber

definition js_div :: "rat \<Rightarrow> rat \<Rightarrow> quotient" where
  "js_div a b =
     (if b \<noteq> 0 then Finite (a / b)
      else if 0 < a then PlusInfinity
      else if a < 0 then MinusInfinity
      else NotANumber)"

text \<open>\<^verbatim>\<open>Math.abs(r - 4 / 3) < 0.01\<close> and \<^verbatim>\<open>r > 4 / 3\<close>; both are false on \<^verbatim>\<open>NaN\<close>.\<close>

definition near_4x3 :: "quotient \<Rightarrow> bool" where
  "near_4x3 q = (case q of Finite r \<Rightarrow> \<bar>r - 4 / 3\<bar> < 1 / 100 | _ \<Rightarrow> False)"

definition wider_than_4x3 :: "quotient \<Rightarrow> bool" where
  "wider_than_4x3 q = (case q of Finite r \<Rightarrow> 4 / 3 < r | PlusInfinity \<Rightarrow> True | _ \<Rightarrow> False)"

text \<open>\<^verbatim>\<open>Math.round\<close> rounds to the nearest integer, a half upwards, as \<open>round\<close> does.\<close>

definition Math_round :: "rat \<Rightarrow> rat" where
  "Math_round v = of_int (round v)"

definition EXPORT_PADDING :: rat where
  "EXPORT_PADDING = 20"


text \<open>The 4:3 rectangle \<^verbatim>\<open>vp4x3\<close> that \<^verbatim>\<open>applyViewBox\<close> derives from the animated viewport.\<close>

definition vp4x3 :: "rat ViewportRect \<Rightarrow> rat ViewportRect" where
  "vp4x3 a =
     (let w = vp_width a; h = vp_height a; ratio = js_div w h in
      if near_4x3 ratio then a
      else if wider_than_4x3 ratio then
        \<lparr> vp_x = vp_x a, vp_y = vp_y a, vp_width = w, vp_height = Math_round (w * 3 / 4) \<rparr>
      else
        \<lparr> vp_x = vp_x a, vp_y = vp_y a, vp_width = Math_round (h * 4 / 3), vp_height = h \<rparr>)"

record viewBox =
  vb_x :: rat
  vb_y :: rat
  vb_w :: rat
  vb_h :: rat

definition sceneToSvgViewBox :: "rat ViewportRect \<Rightarrow> rat \<Rightarrow> rat \<Rightarrow> viewBox" where
  "sceneToSvgViewBox vp sceneMinX sceneMinY =
     \<lparr> vb_x = vp_x vp - sceneMinX + EXPORT_PADDING,
       vb_y = vp_y vp - sceneMinY + EXPORT_PADDING,
       vb_w = vp_width vp,
       vb_h = vp_height vp \<rparr>"

text \<open>The base view box \<^verbatim>\<open>applyViewBox\<close> stores, from the scene bounds and the animated viewport.\<close>

definition applyViewBox :: "rat \<Rightarrow> rat \<Rightarrow> rat ViewportRect \<Rightarrow> viewBox" where
  "applyViewBox minX minY a = sceneToSvgViewBox (vp4x3 a) minX minY"


subsection \<open>The animator\<close>








section \<open>Streaming render loop\<close>

text \<open>
  The effect that runs on every tool-input event, from the recovered element array
  onwards. The editing library, the checkpoint fetch and the random source are
  parameters; what the effect does to the outside is returned as a list of calls.
\<close>

datatype failure = Thrown error | LibraryFailure

record env =
  convertToExcalidrawElements :: "json list \<Rightarrow> json list option"
  Excalifont :: json
  loadCheckpoint :: "(json option \<Rightarrow> json option) option"
  editedElements :: "json list option"
  random_seed :: "nat \<Rightarrow> int"

text \<open>
  \<open>convertToExcalidrawElements\<close> is the library's conversion (\<open>None\<close>: it throws);
  \<open>Excalifont\<close> is \<^verbatim>\<open>FONT_FAMILY.Excalifont ?? 1\<close>; \<open>loadCheckpoint\<close> is the optional
  property of that name, its result \<open>None\<close> for \<^verbatim>\<open>null\<close>; \<open>random_seed i\<close> is the value of
  the \<open>i\<close>-th \<^verbatim>\<open>Math.floor(Math.random() * 1e9)\<close> of one run.
\<close>

record refs =
  latestRef :: "json list"
  restoredRef :: "(json option \<times> json list) option"

datatype effect =
    PlayStroke json
  | SetCount nat
  | CaptureInitialElements "json list"
  | OnElements "json list"
  | RenderSvgPreview "json list" "json option ViewportRect option" "json list option"

record outcome =
  refs_after :: refs
  effects :: "effect list"
  failed :: "failure option"

subsection \<open>Conversion of raw elements\<close>

definition pseudoTypes :: "json option set" where
  "pseudoTypes = {Some (JStr ''cameraUpdate''), Some (JStr ''delete''), Some (JStr ''restoreCheckpoint'')}"

text \<open>
  \<^verbatim>\<open>el.label ? { ...el, label: { textAlign: "center", verticalAlign: "middle", ...el.label } } : el\<close>
\<close>

definition with_label_defaults :: "json \<Rightarrow> json" where
  "with_label_defaults el =
     (case getp el ''label'' of
        None \<Rightarrow> el
      | Some l \<Rightarrow>
          if truthy (Some l) then
            with_field el ''label''
              (JObj (fold (\<lambda>(k, v). AList.update k v) (spread l)
                       [(''textAlign'', JStr ''center''), (''verticalAlign'', JStr ''middle'')]))
          else el)"

definition with_font :: "json \<Rightarrow> json \<Rightarrow> json" where
  "with_font font el =
     (if getp el ''type'' = Some (JStr ''text'') then with_field el ''fontFamily'' font else el)"

definition convertRawElements :: "env \<Rightarrow> json list \<Rightarrow> failure + json list" where
  "convertRawElements e els =
     (if JNull \<in> set els then Inl (Thrown TypeError)
      else
        (let pseudos = filter (\<lambda>el. getp el ''type'' \<in> pseudoTypes) els;
             real = filter (\<lambda>el. getp el ''type'' \<notin> pseudoTypes) els;
             withDefaults = map with_label_defaults real
         in case convertToExcalidrawElements e withDefaults of
              None \<Rightarrow> Inl LibraryFailure
            | Some converted \<Rightarrow>
                if JNull \<in> set converted then Inl (Thrown TypeError)
                else Inr (map (with_font (Excalifont e)) converted @ pseudos)))"

subsection \<open>Pieces of the reconciliation\<close>

text \<open>\<^verbatim>\<open>base.find((el) => el.type === "cameraUpdate")\<close>\<close>

fun find_camera :: "json list \<Rightarrow> error + json option" where
  "find_camera [] = Inr None"
| "find_camera (el # els) =
     (if el = JNull then Inl TypeError
      else if getp el ''type'' = Some (JStr ''cameraUpdate'') then Inr (Some el)
      else find_camera els)"

text \<open>
  \<^verbatim>\<open>base.filter((el) => !ids.has(el.id) && !ids.has(el.containerId))\<close>
\<close>

definition without_deleted :: "string set \<Rightarrow> json list \<Rightarrow> error + json list" where
  "without_deleted ids base =
     (if JNull \<in> set base then Inl TypeError
      else Inr (filter (\<lambda>el. \<not> has ids (getp el ''id'') \<and> \<not> has ids (getp el ''containerId'')) base))"

text \<open>\<^verbatim>\<open>saved.elements\<close>, which the callers use as an array.\<close>

definition elements_of :: "json \<Rightarrow> error + json list" where
  "elements_of saved = (case getp saved ''elements'' of Some (JArr xs) \<Rightarrow> Inr xs | _ \<Rightarrow> Inl TypeError)"

text \<open>
  \<^verbatim>\<open>a !== b\<close> negated: primitives compare by value; arrays and objects of different
  parses are never the same object.
\<close>

fun strict_eq :: "json option \<Rightarrow> json option \<Rightarrow> bool" where
  "strict_eq None None = True"
| "strict_eq (Some JNull) (Some JNull) = True"
| "strict_eq (Some (JBool a)) (Some (JBool b)) = (a = b)"
| "strict_eq (Some (JNum a)) (Some (JNum b)) = (a = b)"
| "strict_eq (Some (JStr a)) (Some (JStr b)) = (a = b)"
| "strict_eq _ _ = False"

text \<open>The fallback of both paths: without a viewport of its own, the chunk takes the base's camera.\<close>

definition camera_fallback ::
  "json option ViewportRect option \<Rightarrow> json list \<Rightarrow> error + json option ViewportRect option" where
  "camera_fallback vp base =
     (case vp of
        Some v \<Rightarrow> Inr (Some v)
      | None \<Rightarrow>
          (case find_camera base of
             Inl e \<Rightarrow> Inl e
           | Inr None \<Rightarrow> Inr None
           | Inr (Some cam) \<Rightarrow> Inr (Some (rect_of cam))))"

text \<open>The first loop of the partial path: restore and delete directives of the whole chunk.\<close>

fun stream_directives ::
  "json list \<Rightarrow> json option \<times> string set \<Rightarrow> error + json option \<times> string set" where
  "stream_directives [] acc = Inr acc"
| "stream_directives (el # els) (rid, dels) =
     (if el = JNull then Inl TypeError
      else if getp el ''type'' = Some (JStr ''restoreCheckpoint'') then
        stream_directives els (getp el ''id'', dels)
      else if getp el ''type'' = Some (JStr ''delete'') then
        stream_directives els (rid, dels \<union> set (delete_ids_of el))
      else stream_directives els (rid, dels))"

definition stop :: "refs \<Rightarrow> effect list \<Rightarrow> failure \<Rightarrow> outcome" where
  "stop r es f = \<lparr> refs_after = r, effects = es, failed = Some f \<rparr>"

definition finish :: "refs \<Rightarrow> effect list \<Rightarrow> outcome" where
  "finish r es = \<lparr> refs_after = r, effects = es, failed = None \<rparr>"

subsection \<open>The partial path\<close>

text \<open>The checkpoint fetch of \<^verbatim>\<open>doStream\<close>, once per restore identifier.\<close>

definition stream_load :: "env \<Rightarrow> refs \<Rightarrow> json option \<Rightarrow> failure + refs" where
  "stream_load e r streamRestoreId =
     (if (case restoredRef r of None \<Rightarrow> True | Some (rid, _) \<Rightarrow> \<not> strict_eq rid streamRestoreId) then
        (case loadCheckpoint e of
           None \<Rightarrow> Inr r
         | Some load \<Rightarrow>
             (case load streamRestoreId of
                None \<Rightarrow> Inr r
              | Some saved \<Rightarrow>
                  if \<not> truthy (Some saved) then Inr r
                  else (case elements_of saved of
                          Inl err \<Rightarrow> Inl (Thrown err)
                        | Inr els \<Rightarrow>
                            (case convertRawElements e els of
                               Inl f \<Rightarrow> Inl f
                             | Inr converted \<Rightarrow>
                                 Inr (r\<lparr>restoredRef := Some (streamRestoreId, converted)\<rparr>)))))
      else Inr r)"

text \<open>\<^verbatim>\<open>drawElements[i].type ?? "rectangle"\<close>\<close>

definition stroke_key :: "json \<Rightarrow> json" where
  "stroke_key el = (case coalesce (getp el ''type'') (Some (JStr ''rectangle'')) of
                      Some k \<Rightarrow> k | None \<Rightarrow> JStr ''rectangle'')"

definition jittered :: "env \<Rightarrow> json list \<Rightarrow> json list" where
  "jittered e els = map (\<lambda>i. with_field (els ! i) ''seed'' (JNum (random_seed e i))) [0..<length els]"

text \<open>The end of \<^verbatim>\<open>doStream\<close>: feedback and re-render, or the base alone, or nothing.\<close>

definition stream_render ::
  "env \<Rightarrow> refs \<Rightarrow> json list \<Rightarrow> json option ViewportRect option \<Rightarrow> json list option \<Rightarrow> outcome" where
  "stream_render e r drawEls vp base =
     (if length drawEls > 0 \<and> length drawEls \<noteq> length (latestRef r) then
        (let prevCount = length (latestRef r) in
         finish (r\<lparr>latestRef := drawEls\<rparr>)
           (map (\<lambda>i. PlayStroke (stroke_key (drawEls ! i))) [prevCount..<length drawEls]
            @ [SetCount (length drawEls), RenderSvgPreview (jittered e drawEls) vp base]))
      else if (case base of None \<Rightarrow> False | Some b \<Rightarrow> length b > 0) \<and> length (latestRef r) = 0 then
        finish r [RenderSvgPreview [] vp base]
      else finish r [])"

text \<open>
  The \<^verbatim>\<open>if (streamRestoreId) { ... }\<close> block of \<^verbatim>\<open>doStream\<close>: the references, the viewport
  and the base it leaves, or the failure that ends the run.
\<close>

definition stream_reconcile ::
  "env \<Rightarrow> refs \<Rightarrow> json option \<Rightarrow> string set \<Rightarrow> json option ViewportRect option
     \<Rightarrow> refs \<times> failure + refs \<times> json option ViewportRect option \<times> json list option" where
  "stream_reconcile e r streamRestoreId streamDeleteIds vp =
     (if truthy streamRestoreId then
        (case stream_load e r streamRestoreId of
           Inl f \<Rightarrow> Inl (r, f)
         | Inr r1 \<Rightarrow>
             (case restoredRef r1 of
                None \<Rightarrow> Inr (r1, vp, None)
              | Some (_, base) \<Rightarrow>
                  (case camera_fallback vp base of
                     Inl err \<Rightarrow> Inl (r1, Thrown err)
                   | Inr vp1 \<Rightarrow>
                       if streamDeleteIds \<noteq> {} then
                         (case without_deleted streamDeleteIds base of
                            Inl err \<Rightarrow> Inl (r1, Thrown err)
                          | Inr base1 \<Rightarrow> Inr (r1, vp1, Some base1))
                       else Inr (r1, vp1, Some base))))
      else Inr (r, vp, None))"

definition doStream ::
  "env \<Rightarrow> refs \<Rightarrow> json option \<Rightarrow> string set \<Rightarrow> json option ViewportRect option \<Rightarrow> json list
     \<Rightarrow> outcome" where
  "doStream e r streamRestoreId streamDeleteIds vp drawEls =
     (case stream_reconcile e r streamRestoreId streamDeleteIds vp of
        Inl (r1, f) \<Rightarrow> stop r1 [] f
      | Inr (r1, vp1, base) \<Rightarrow> stream_render e r1 drawEls vp1 base)"

text \<open>The partial path of the effect, on the array \<^verbatim>\<open>parsePartialElements\<close> recovered.\<close>

definition partialInput :: "env \<Rightarrow> refs \<Rightarrow> json list \<Rightarrow> outcome" where
  "partialInput e r parsed =
     (case stream_directives parsed (Some JNull, {}) of
        Inl err \<Rightarrow> stop r [] (Thrown err)
      | Inr (streamRestoreId, streamDeleteIds) \<Rightarrow>
          (case extractViewportAndElements (excludeIncompleteLastItem parsed) of
             Inl err \<Rightarrow> stop r [] (Thrown err)
           | Inr x \<Rightarrow> doStream e r streamRestoreId streamDeleteIds (viewport x) (drawElements x)))"

subsection \<open>The final path\<close>

text \<open>The checkpoint of \<^verbatim>\<open>doFinal\<close>: the viewport after the fallback, and the converted base.\<close>

definition final_load ::
  "env \<Rightarrow> json option \<Rightarrow> string set \<Rightarrow> json option ViewportRect option
     \<Rightarrow> failure + json option ViewportRect option \<times> json list option" where
  "final_load e rid dels vp =
     (case loadCheckpoint e of
        None \<Rightarrow> Inr (vp, None)
      | Some load \<Rightarrow>
          if \<not> truthy rid then Inr (vp, None)
          else (case load rid of
                  None \<Rightarrow> Inr (vp, None)
                | Some saved \<Rightarrow>
                    if \<not> truthy (Some saved) then Inr (vp, None)
                    else (case elements_of saved of
                            Inl err \<Rightarrow> Inl (Thrown err)
                          | Inr base \<Rightarrow>
                              (case camera_fallback vp base of
                                 Inl err \<Rightarrow> Inl (Thrown err)
                               | Inr vp1 \<Rightarrow>
                                   (case convertRawElements e base of
                                      Inl f \<Rightarrow> Inl f
                                    | Inr base1 \<Rightarrow>
                                        if dels \<noteq> {} then
                                          (case without_deleted dels base1 of
                                             Inl err \<Rightarrow> Inl (Thrown err)
                                           | Inr base2 \<Rightarrow> Inr (vp1, Some base2))
                                        else Inr (vp1, Some base1))))))"

definition doFinal ::
  "env \<Rightarrow> refs \<Rightarrow> extracted \<Rightarrow> outcome" where
  "doFinal e r x =
     (case final_load e (restoreId x) (deleteIds x) (viewport x) of
        Inl f \<Rightarrow> stop r [] f
      | Inr (vp, base) \<Rightarrow>
          (let r1 = r\<lparr>latestRef := drawElements x\<rparr> in
           case convertRawElements e (drawElements x) of
             Inl f \<Rightarrow> stop r1 [] f
           | Inr convertedNew \<Rightarrow>
               (let allConverted = (case base of None \<Rightarrow> convertedNew | Some b \<Rightarrow> b @ convertedNew) in
                finish r1
                  (CaptureInitialElements allConverted #
                   (if editedElements e = None
                    then [OnElements allConverted, RenderSvgPreview (drawElements x) vp base]
                    else [])))))"

definition finalInput :: "env \<Rightarrow> refs \<Rightarrow> json list \<Rightarrow> outcome" where
  "finalInput e r parsed =
     (case extractViewportAndElements parsed of
        Inl err \<Rightarrow> stop r [] (Thrown err)
      | Inr x \<Rightarrow> doFinal e r x)"

subsection \<open>What a render call does with its viewport\<close>

definition defaultVP :: "json option ViewportRect" where
  "defaultVP = \<lparr> vp_x = Some (JNum 0), vp_y = Some (JNum 0),
                 vp_width = Some (JNum 1024), vp_height = Some (JNum 768) \<rparr>"

text \<open>
  The viewport \<^verbatim>\<open>renderSvgPreview\<close> reports through \<^verbatim>\<open>onViewport\<close> and animates toward,
  once the export has succeeded: the one it was given, or the default rectangle. \<open>None\<close>
  when the call returns at once because there is nothing to draw.
\<close>

definition render_viewport ::
  "json list \<Rightarrow> json option ViewportRect option \<Rightarrow> json list option \<Rightarrow> json option ViewportRect option" where
  "render_viewport els vp base =
     (if length els = 0 \<and> (case base of None \<Rightarrow> True | Some b \<Rightarrow> length b = 0) then None
      else (case vp of Some v \<Rightarrow> Some v | None \<Rightarrow> Some defaultVP))"

subsection \<open>The camera record of a base scene\<close>

text \<open>The camera record a base scene carries: its first element tagged as a camera update.\<close>

definition embedded_camera :: "json list \<Rightarrow> json option" where
  "embedded_camera base = List.find (\<lambda>el. getp el ''type'' = Some (JStr ''cameraUpdate'')) base"

section \<open>Example inputs\<close>

text \<open>A small environment for running the loop: the conversion returns its input.\<close>

definition env0 :: env where
  "env0 = \<lparr> convertToExcalidrawElements = Some, Excalifont = JNum 1, loadCheckpoint = None,
            editedElements = None, random_seed = (\<lambda>i. 7 + int i) \<rparr>"

definition rect_el :: "string \<Rightarrow> json" where
  "rect_el i = JObj [(''type'', JStr ''rectangle''), (''id'', JStr i)]"

definition camera_el :: json where
  "camera_el = JObj [(''type'', JStr ''cameraUpdate''), (''x'', JNum 5), (''y'', JNum 6),
                     (''width'', JNum 400), (''height'', JNum 300)]"

definition restore_el :: json where
  "restore_el = JObj [(''type'', JStr ''restoreCheckpoint''), (''id'', JStr ''cp1'')]"

text \<open>An environment whose store holds one checkpoint, a rectangle and a camera record.\<close>

definition env1 :: env where
  "env1 = env0 \<lparr> loadCheckpoint :=
            Some (\<lambda>i. if i = Some (JStr ''cp1'')
                       then Some (JObj [(''elements'', JArr [rect_el ''b0'', camera_el])])
                       else None) \<rparr>"

section \<open>Properties of the classifier\<close>


lemma classify_loop_classified:
  "JNull \<notin> set els \<Longrightarrow> classify_loop els acc = Inr (classified els acc)"
proof (induction els arbitrary: acc)
  case Nil
  show ?case by (simp add: classified_def of_kind_def)
next
  case (Cons el els)
  then have IH: "\<And>a. classify_loop els a = Inr (classified els a)" and nn: "el \<noteq> JNull"
    by auto
  show ?case
  proof (cases "kind_of el")
    case ViewportUpdate
    then have t: "getp el ''type'' = Some (JStr ''cameraUpdate'')"
      by (simp add: kind_of_def split: if_splits)
    show ?thesis using nn t ViewportUpdate
      by (simp add: IH classified_def of_kind_def kind_of_def split: list.splits)
  next
    case RestoreCheckpoint
    then have t: "getp el ''type'' = Some (JStr ''restoreCheckpoint'')"
      by (simp add: kind_of_def split: if_splits)
    show ?thesis using nn t RestoreCheckpoint
      by (simp add: IH classified_def of_kind_def kind_of_def split: list.splits)
  next
    case Delete
    then have t: "getp el ''type'' = Some (JStr ''delete'')"
      by (simp add: kind_of_def split: if_splits)
    show ?thesis using nn t Delete
      by (simp add: IH classified_def of_kind_def kind_of_def Un_assoc split: list.splits)
  next
    case Drawable
    then have t: "getp el ''type'' \<noteq> Some (JStr ''cameraUpdate'')"
      "getp el ''type'' \<noteq> Some (JStr ''restoreCheckpoint'')"
      "getp el ''type'' \<noteq> Some (JStr ''delete'')"
      by (simp_all add: kind_of_def split: if_splits)
    show ?thesis using nn t Drawable
      by (simp add: IH classified_def of_kind_def kind_of_def split: list.splits)
  qed
qed

lemma tombstone_empty: "tombstone {} el = el"
  by (simp add: tombstone_def has_def split: option.splits json.splits)

lemma map_tombstone_empty: "map (tombstone {}) xs = xs"
  by (simp add: tombstone_empty map_idI)

lemma extract_classified:
  assumes "JNull \<notin> set els"
  shows "extractViewportAndElements els =
     Inr ((classified els empty_extracted)
           \<lparr>drawElements := map (tombstone (deleteIds (classified els empty_extracted)))
                               (of_kind Drawable els)\<rparr>)"
proof -
  let ?c = "classified els empty_extracted"
  have d: "drawElements ?c = of_kind Drawable els"
    by (simp add: classified_def empty_extracted_def)
  have "(if deleteIds ?c \<noteq> {} then map (tombstone (deleteIds ?c)) (drawElements ?c)
         else drawElements ?c) = map (tombstone (deleteIds ?c)) (of_kind Drawable els)"
    by (simp add: d map_tombstone_empty)
  then show ?thesis
    using assms by (simp add: extractViewportAndElements_def classify_loop_classified)
qed


lemma kinds_partition:
  "length (of_kind ViewportUpdate els) + length (of_kind RestoreCheckpoint els)
   + length (of_kind Delete els) + length (of_kind Drawable els) = length els"
  by (induction els) (auto simp: of_kind_def intro: kind.exhaust)

lemma kind_of_tags:
  "(kind_of el = ViewportUpdate \<longleftrightarrow> getp el ''type'' = Some (JStr ''cameraUpdate'')) \<and>
   (kind_of el = RestoreCheckpoint \<longleftrightarrow> getp el ''type'' = Some (JStr ''restoreCheckpoint'')) \<and>
   (kind_of el = Delete \<longleftrightarrow> getp el ''type'' = Some (JStr ''delete''))"
  by (simp add: kind_of_def)

text \<open>
  C3. One pass puts every element into exactly one bucket, chosen by exact match of its
  type tag: the rectangle of the last viewport directive is retained, the identifier of
  the last restore directive is retained, the identifiers of all delete directives
  accumulate into one set, and the remaining elements are the drawables in their
  original relative order (with the tombstone applied to the targeted ones). The four
  buckets together count every element once. An element that is \<^verbatim>\<open>null\<close> makes the
  loop throw instead, so it is excluded here.
\<close>

theorem classifier_partition:
  assumes "JNull \<notin> set els"
  shows "\<exists>r. extractViewportAndElements els = Inr r \<and>
     viewport r = (if of_kind ViewportUpdate els = [] then None
                   else Some (rect_of (last (of_kind ViewportUpdate els)))) \<and>
     restoreId r = (if of_kind RestoreCheckpoint els = [] then Some JNull
                    else getp (last (of_kind RestoreCheckpoint els)) ''id'') \<and>
     deleteIds r = (\<Union>el \<in> set (of_kind Delete els). set (delete_ids_of el)) \<and>
     drawElements r = map (tombstone (deleteIds r)) (of_kind Drawable els) \<and>
     length (of_kind ViewportUpdate els) + length (of_kind RestoreCheckpoint els)
       + length (of_kind Delete els) + length (drawElements r) = length els \<and>
     (\<forall>el. (kind_of el = ViewportUpdate \<longleftrightarrow> getp el ''type'' = Some (JStr ''cameraUpdate'')) \<and>
       (kind_of el = RestoreCheckpoint \<longleftrightarrow> getp el ''type'' = Some (JStr ''restoreCheckpoint'')) \<and>
       (kind_of el = Delete \<longleftrightarrow> getp el ''type'' = Some (JStr ''delete'')))"
proof -
  let ?r = "(classified els empty_extracted)
           \<lparr>drawElements := map (tombstone (deleteIds (classified els empty_extracted)))
                               (of_kind Drawable els)\<rparr>"
  have "extractViewportAndElements els = Inr ?r"
    by (rule extract_classified [OF assms])
  moreover have "viewport ?r = (if of_kind ViewportUpdate els = [] then None
                   else Some (rect_of (last (of_kind ViewportUpdate els))))"
    by (simp add: classified_def empty_extracted_def)
  moreover have "restoreId ?r = (if of_kind RestoreCheckpoint els = [] then Some JNull
                    else getp (last (of_kind RestoreCheckpoint els)) ''id'')"
    by (simp add: classified_def empty_extracted_def)
  moreover have "deleteIds ?r = (\<Union>el \<in> set (of_kind Delete els). set (delete_ids_of el))"
    by (simp add: classified_def empty_extracted_def)
  moreover have "drawElements ?r = map (tombstone (deleteIds ?r)) (of_kind Drawable els)"
    by simp
  moreover have "length (of_kind ViewportUpdate els) + length (of_kind RestoreCheckpoint els)
       + length (of_kind Delete els) + length (drawElements ?r) = length els"
    using kinds_partition [of els] by simp
  ultimately show ?thesis
    using kind_of_tags by blast
qed




lemma delete_ids_example: "delete_ids_of (JObj [(''type'', JStr ''delete''), (''ids'', JStr ''a, b'')]) = [''a'', ''b'']"
  by (simp add: delete_ids_of_def String_js_def coalesce_def nullish_def trim_def is_space_def)

theorem classifier_partition_witness:
  "\<exists>r. extractViewportAndElements
      [JObj [(''type'', JStr ''cameraUpdate''), (''x'', JNum 0), (''y'', JNum 0),
             (''width'', JNum 800), (''height'', JNum 600)],
       JObj [(''type'', JStr ''rectangle''), (''id'', JStr ''a'')],
       JObj [(''type'', JStr ''delete''), (''ids'', JStr ''a, b'')],
       JObj [(''type'', JStr ''cameraUpdate''), (''x'', JNum 10), (''y'', JNum 20),
             (''width'', JNum 400), (''height'', JNum 300)],
       JObj [(''type'', JStr ''restoreCheckpoint''), (''id'', JStr ''cp1'')],
       JObj [(''type'', JStr ''ellipse''), (''id'', JStr ''c'')]] = Inr r \<and>
     viewport r = Some \<lparr> vp_x = Some (JNum 10), vp_y = Some (JNum 20),
                            vp_width = Some (JNum 400), vp_height = Some (JNum 300) \<rparr> \<and>
     restoreId r = Some (JStr ''cp1'') \<and>
     deleteIds r = {''a'', ''b''} \<and>
     drawElements r =
       [JObj [(''type'', JStr ''rectangle''), (''id'', JStr ''a''), (''opacity'', JNum 1)],
        JObj [(''type'', JStr ''ellipse''), (''id'', JStr ''c'')]]"
proof -
  let ?els = "[JObj [(''type'', JStr ''cameraUpdate''), (''x'', JNum 0), (''y'', JNum 0),
             (''width'', JNum 800), (''height'', JNum 600)],
       JObj [(''type'', JStr ''rectangle''), (''id'', JStr ''a'')],
       JObj [(''type'', JStr ''delete''), (''ids'', JStr ''a, b'')],
       JObj [(''type'', JStr ''cameraUpdate''), (''x'', JNum 10), (''y'', JNum 20),
             (''width'', JNum 400), (''height'', JNum 300)],
       JObj [(''type'', JStr ''restoreCheckpoint''), (''id'', JStr ''cp1'')],
       JObj [(''type'', JStr ''ellipse''), (''id'', JStr ''c'')]]"
  have nn: "JNull \<notin> set ?els" by simp
  from classifier_partition [OF nn] obtain r where
    r: "extractViewportAndElements ?els = Inr r"
    and v: "viewport r = (if of_kind ViewportUpdate ?els = [] then None
                   else Some (rect_of (last (of_kind ViewportUpdate ?els))))"
    and i: "restoreId r = (if of_kind RestoreCheckpoint ?els = [] then Some JNull
                    else getp (last (of_kind RestoreCheckpoint ?els)) ''id'')"
    and d: "deleteIds r = (\<Union>el \<in> set (of_kind Delete ?els). set (delete_ids_of el))"
    and e: "drawElements r = map (tombstone (deleteIds r)) (of_kind Drawable ?els)"
    by blast
  have d': "deleteIds r = {''a'', ''b''}"
    unfolding d by (simp add: of_kind_def kind_of_def delete_ids_example)
  have "viewport r = Some \<lparr> vp_x = Some (JNum 10), vp_y = Some (JNum 20),
                            vp_width = Some (JNum 400), vp_height = Some (JNum 300) \<rparr>"
    unfolding v by (simp add: of_kind_def kind_of_def rect_of_def)
  moreover have "restoreId r = Some (JStr ''cp1'')"
    unfolding i by (simp add: of_kind_def kind_of_def)
  moreover have "drawElements r =
       [JObj [(''type'', JStr ''rectangle''), (''id'', JStr ''a''), (''opacity'', JNum 1)],
        JObj [(''type'', JStr ''ellipse''), (''id'', JStr ''c'')]]"
    unfolding e d' by (simp add: of_kind_def kind_of_def tombstone_def has_def with_field_def)
  ultimately show ?thesis using r d' by blast
qed


section \<open>Properties of the partial-JSON recovery\<close>

lemma lastIndexOf_split:
  assumes "s = p @ c # r" and "c \<notin> set r"
  shows "lastIndexOf s c = int (length p)"
proof -
  have "takeWhile (\<lambda>x. x \<noteq> c) (rev s) = rev r"
    using assms by (auto simp: takeWhile_tail)
  then show ?thesis using assms(1) by (simp add: lastIndexOf_def)
qed

lemma lastIndexOf_none: "c \<notin> set s \<Longrightarrow> lastIndexOf s c = - 1"
  by (simp add: lastIndexOf_def)

lemma substring0_split: "substring0 (p @ c # r) (int (length p) + 1) = p @ [c]"
  by (simp add: substring0_def nat_add_distrib)

lemma parse_bracket: "JSON_parse ''['' = None"
  by (simp add: JSON_parse_def lex_def lex_token_def is_json_space_def parse_tokens_def)

text \<open>
  C1. The recovery function returns the empty array when its argument is absent or when
  the trimmed string does not start with an opening bracket; otherwise the full parse
  when it succeeds; otherwise the empty array when the string has no closing brace;
  otherwise the parse of the text up to and including the last closing brace with a
  closing bracket appended, or the empty array when that fails. This holds for whatever
  the parser does; with the parser of this theory, a lone opening bracket gives the
  empty array.
\<close>

theorem parsePartialElements_spec:
  "parsePartialElements parse None = JArr [] \<and>
   (\<not> startsWith (trim s) ''['' \<longrightarrow> parsePartialElements parse (Some s) = JArr []) \<and>
   (startsWith (trim s) ''['' \<and> parse s = Some v \<longrightarrow> parsePartialElements parse (Some s) = v) \<and>
   (startsWith (trim s) ''['' \<and> parse s = None \<and> CHR ''}'' \<notin> set s \<longrightarrow>
      parsePartialElements parse (Some s) = JArr []) \<and>
   (startsWith (trim s) ''['' \<and> parse s = None \<and> s = p @ CHR ''}'' # r \<and> CHR ''}'' \<notin> set r \<longrightarrow>
      parsePartialElements parse (Some s)
        = (case parse (p @ ''}]'') of Some w \<Rightarrow> w | None \<Rightarrow> JArr [])) \<and>
   parsePartialElements JSON_parse (Some ''['') = JArr []"
proof (intro conjI impI)
  show "parsePartialElements parse None = JArr []"
    by (simp add: parsePartialElements_def)
  show "parsePartialElements parse (Some s) = JArr []" if "\<not> startsWith (trim s) ''[''"
    using that by (simp add: parsePartialElements_def)
  show "parsePartialElements parse (Some s) = v" if "startsWith (trim s) ''['' \<and> parse s = Some v"
    using that by (simp add: parsePartialElements_def)
  show "parsePartialElements parse (Some s) = JArr []"
    if "startsWith (trim s) ''['' \<and> parse s = None \<and> CHR ''}'' \<notin> set s"
    using that by (simp add: parsePartialElements_def lastIndexOf_none)
  show "parsePartialElements parse (Some s)
        = (case parse (p @ ''}]'') of Some w \<Rightarrow> w | None \<Rightarrow> JArr [])"
    if a: "startsWith (trim s) ''['' \<and> parse s = None \<and> s = p @ CHR ''}'' # r \<and> CHR ''}'' \<notin> set r"
  proof -
    from a have l: "lastIndexOf s (CHR ''}'') = int (length p)"
      by (intro lastIndexOf_split) auto
    from a have u: "substring0 s (int (length p) + 1) = p @ ''}''"
      using substring0_split [of p "CHR ''}''" r] by simp
    from a have st: "startsWith (trim s) ''[''" and pn: "parse s = None"
      by auto
    show ?thesis
      by (simp add: parsePartialElements_def st pn l u Let_def)
  qed
  show "parsePartialElements JSON_parse (Some ''['') = JArr []"
    by (simp add: parsePartialElements_def startsWith_def trim_def is_space_def parse_bracket
        lastIndexOf_def)
qed

theorem parsePartialElements_spec_witness:
  "parsePartialElements JSON_parse (Some ''[{},[1,2'') = JArr [JObj []] \<and>
   parsePartialElements JSON_parse (Some ''[{},[1,2]]'') = JArr [JObj [], JArr [JNum 1, JNum 2]] \<and>
   parsePartialElements JSON_parse (Some ''{}'') = JArr [] \<and>
   parsePartialElements JSON_parse (Some ''[1,2'') = JArr []"
proof -
  have e: "nat_of_digits ''1'' = 1" "nat_of_digits ''2'' = 2"
    by (simp_all add: nat_of_digits_def digit_val_def)
  have p1: "JSON_parse ''[{},[1,2'' = None"
    by (simp add: JSON_parse_def lex_def lex_token_def is_json_space_def lex_number_def
        is_digit_def e parse_tokens_def)
  have p1': "JSON_parse ''[{}]'' = Some (JArr [JObj []])"
    by (simp add: JSON_parse_def lex_def lex_token_def is_json_space_def parse_tokens_def)
  have p2: "JSON_parse ''[{},[1,2]]'' = Some (JArr [JObj [], JArr [JNum 1, JNum 2]])"
    by (simp add: JSON_parse_def lex_def lex_token_def is_json_space_def lex_number_def
        is_digit_def e parse_tokens_def)
  have p3: "JSON_parse ''[1,2'' = None"
    by (simp add: JSON_parse_def lex_def lex_token_def is_json_space_def lex_number_def
        is_digit_def e parse_tokens_def)
  have s1: "startsWith (trim ''[{},[1,2'') ''[''" "startsWith (trim ''[{},[1,2]]'') ''[''"
    "\<not> startsWith (trim ''{}'') ''[''" "startsWith (trim ''[1,2'') ''[''"
    by (simp_all add: startsWith_def trim_def is_space_def)
  from parsePartialElements_spec [of JSON_parse "''[{},[1,2''" _ "''[{''" "'',[1,2''"]
    p1 p1' s1(1)
  have a: "parsePartialElements JSON_parse (Some ''[{},[1,2'') = JArr [JObj []]"
    by simp
  from parsePartialElements_spec [of JSON_parse "''[{},[1,2]]''" "JArr [JObj [], JArr [JNum 1, JNum 2]]"]
    p2 s1(2)
  have b: "parsePartialElements JSON_parse (Some ''[{},[1,2]]'') = JArr [JObj [], JArr [JNum 1, JNum 2]]"
    by simp
  from parsePartialElements_spec [of JSON_parse "''{}''"] s1(3)
  have c: "parsePartialElements JSON_parse (Some ''{}'') = JArr []"
    by simp
  from parsePartialElements_spec [of JSON_parse "''[1,2''"] p3 s1(4)
  have d: "parsePartialElements JSON_parse (Some ''[1,2'') = JArr []"
    by simp
  from a b c d show ?thesis by simp
qed

section \<open>JSON text: the parser inverts the serialiser\<close>

subsection \<open>Digits\<close>
















subsection \<open>Strings\<close>













subsection \<open>The serialiser prints the tokens of a value\<close>

lemma text_of_simps [simp]:
  "text_of [] = []"
  "text_of (t # ts) = token_text t @ text_of ts"
  "text_of (ts @ us) = text_of ts @ text_of us"
  by (simp_all add: text_of_def)




subsection \<open>The lexer reads printed tokens back\<close>










lemma commas_simps [simp]:
  "commas [] = []"
  "commas (ts # tss) = TComma # ts @ commas tss"
  by (simp_all add: commas_def)



subsection \<open>Every number of a printed value is followed by a separator\<close>

lemma number_end_simps [simp]:
  "number_end []"
  "number_end (CHR '','' # w)"
  "number_end (CHR '']'' # w)"
  "number_end (CHR ''}'' # w)"
  by (simp_all add: number_end_def is_digit_def)







subsection \<open>The parser reads the tokens of a value back\<close>









subsection \<open>Store\<close>



section \<open>Properties of the in-memory checkpoint store\<close>



section \<open>JSON text: parsing a truncated serialisation\<close>

subsection \<open>The parser on a proper prefix of the tokens of a value\<close>


lemma above_simps [simp]:
  "above B (PValue B)" "above B (PArrStart B)" "above B (PObjStart B)" "above B (PKey kvs B)"
  "above B (PColon kvs k B)" "above B (PAfterArr xs B)" "above B (PAfterObj kvs B)"
  by (simp_all add: above_def)
















subsection \<open>A cut token does not lex, unless it is a number\<close>
























subsection \<open>Cutting a printed token list\<close>











section \<open>Recovery on truncated arrays\<close>




section \<open>Properties of the viewport mapping and the animator\<close>






























section \<open>Properties of the streaming render loop\<close>

lemma effects_stop [simp]: "effects (stop r es f) = es" "failed (stop r es f) = Some f"
  "refs_after (stop r es f) = r"
  by (simp_all add: stop_def)

lemma effects_finish [simp]: "effects (finish r es) = es" "failed (finish r es) = None"
  "refs_after (finish r es) = r"
  by (simp_all add: finish_def)



lemma length_jittered [simp]: "length (jittered e els) = length els"
  by (simp add: jittered_def)



lemma stream_render_branches:
  "stream_render e r d vp base =
     (if 0 < length d \<and> length d \<noteq> length (latestRef r) then
        finish (r\<lparr>latestRef := d\<rparr>)
          (map (\<lambda>i. PlayStroke (stroke_key (d ! i))) [length (latestRef r)..<length d]
           @ [SetCount (length d), RenderSvgPreview (jittered e d) vp base])
      else if (\<exists>b. base = Some b \<and> b \<noteq> []) \<and> length (latestRef r) = 0 then
        finish r [RenderSvgPreview [] vp base]
      else finish r [])"
  by (auto simp: stream_render_def Let_def split: option.splits)





lemma find_camera_embedded:
  "JNull \<notin> set base \<Longrightarrow> find_camera base = Inr (embedded_camera base)"
  by (induction base) (auto simp: embedded_camera_def)

lemma camera_fallback_embedded:
  assumes "JNull \<notin> set base" and "embedded_camera base = Some cam"
  shows "camera_fallback None base = Inr (Some (rect_of cam))"
  using assms by (simp add: camera_fallback_def find_camera_embedded)

lemma stream_directives_classified:
  "JNull \<notin> set els \<Longrightarrow>
   stream_directives els (rid, dels) =
     Inr (if of_kind RestoreCheckpoint els = [] then rid
          else getp (last (of_kind RestoreCheckpoint els)) ''id'',
          dels \<union> (\<Union>el \<in> set (of_kind Delete els). set (delete_ids_of el)))"
proof (induction els arbitrary: rid dels)
  case Nil
  show ?case by (simp add: of_kind_def)
next
  case (Cons el els)
  then have IH: "\<And>rid dels. stream_directives els (rid, dels) =
     Inr (if of_kind RestoreCheckpoint els = [] then rid
          else getp (last (of_kind RestoreCheckpoint els)) ''id'',
          dels \<union> (\<Union>el \<in> set (of_kind Delete els). set (delete_ids_of el)))"
    and nn: "el \<noteq> JNull" by auto
  show ?case
    using nn by (auto simp: IH of_kind_def kind_of_def)
qed

lemma no_viewport_butlast:
  "of_kind ViewportUpdate els = [] \<Longrightarrow> of_kind ViewportUpdate (excludeIncompleteLastItem els) = []"
  by (auto simp: of_kind_def excludeIncompleteLastItem_def filter_empty_conv dest: in_set_butlastD)

lemma no_null_butlast: "JNull \<notin> set els \<Longrightarrow> JNull \<notin> set (excludeIncompleteLastItem els)"
  by (auto simp: excludeIncompleteLastItem_def dest: in_set_butlastD)

lemma render_viewport_given:
  "render_viewport els (Some v) b = None \<or> render_viewport els (Some v) b = Some v"
  by (simp add: render_viewport_def)

lemma final_camera:
  assumes nn: "JNull \<notin> set parsed"
    and nv: "of_kind ViewportUpdate parsed = []"
    and rs: "of_kind RestoreCheckpoint parsed \<noteq> []"
    and tr: "truthy (getp (last (of_kind RestoreCheckpoint parsed)) ''id'')"
    and ld: "loadCheckpoint e = Some load"
    and sv: "load (getp (last (of_kind RestoreCheckpoint parsed)) ''id'') = Some saved"
    and el: "getp saved ''elements'' = Some (JArr base)"
    and nb: "JNull \<notin> set base"
    and cam: "embedded_camera base = Some cam"
    and ed: "editedElements e = None"
    and ok: "failed (finalInput e r parsed) = None"
  shows "\<exists>allc els b. effects (finalInput e r parsed)
           = [CaptureInitialElements allc, OnElements allc,
              RenderSvgPreview els (Some (rect_of cam)) (Some b)]"
proof -
  let ?rid = "getp (last (of_kind RestoreCheckpoint parsed)) ''id''"
  obtain x where x: "extractViewportAndElements parsed = Inr x"
    and vx: "viewport x = None" and rx: "restoreId x = ?rid"
    using extract_classified [OF nn] nv rs by (simp add: classified_def empty_extracted_def)
  have ts: "truthy (Some saved)"
    using el by (cases saved) simp_all
  have eo: "elements_of saved = Inr base"
    using el by (simp add: elements_of_def)
  have cf: "camera_fallback None base = Inr (Some (rect_of cam))"
    using nb cam by (rule camera_fallback_embedded)
  have fi: "finalInput e r parsed = doFinal e r x"
    by (simp add: finalInput_def x)
  obtain b where fl: "final_load e ?rid (deleteIds x) None = Inr (Some (rect_of cam), Some b)"
  proof (cases "final_load e ?rid (deleteIds x) None")
    case (Inl f)
    then have "failed (finalInput e r parsed) = Some f"
      by (simp add: fi doFinal_def rx vx)
    with ok show ?thesis by simp
  next
    case (Inr p)
    then have "\<exists>b. p = (Some (rect_of cam), Some b)"
      by (auto simp: final_load_def ld tr sv ts eo cf split: sum.splits if_splits)
    with Inr that show ?thesis by blast
  qed
  show ?thesis
  proof (cases "convertRawElements e (drawElements x)")
    case (Inl f)
    then have "failed (finalInput e r parsed) = Some f"
      by (simp add: fi doFinal_def rx vx fl)
    with ok show ?thesis by simp
  next
    case (Inr cn)
    then show ?thesis
      by (simp add: fi doFinal_def rx vx fl ed Let_def)
  qed
qed

lemma stream_camera:
  assumes nn: "JNull \<notin> set parsed"
    and nv: "of_kind ViewportUpdate parsed = []"
    and rs: "of_kind RestoreCheckpoint parsed \<noteq> []"
    and tr: "truthy (getp (last (of_kind RestoreCheckpoint parsed)) ''id'')"
    and sl: "stream_load e r (getp (last (of_kind RestoreCheckpoint parsed)) ''id'') = Inr r1"
    and rr: "restoredRef r1 = Some (i, base)"
    and nb: "JNull \<notin> set base"
    and cam: "embedded_camera base = Some cam"
    and rn: "RenderSvgPreview els vp b \<in> set (effects (partialInput e r parsed))"
  shows "vp = Some (rect_of cam)"
proof -
  let ?rid = "getp (last (of_kind RestoreCheckpoint parsed)) ''id''"
  let ?dels = "\<Union>el \<in> set (of_kind Delete parsed). set (delete_ids_of el)"
  have sd: "stream_directives parsed (Some JNull, {}) = Inr (?rid, ?dels)"
    using stream_directives_classified [OF nn, of "Some JNull" "{}"] rs by simp
  obtain x where x: "extractViewportAndElements (excludeIncompleteLastItem parsed) = Inr x"
    and vx: "viewport x = None"
    using extract_classified [OF no_null_butlast [OF nn]] no_viewport_butlast [OF nv]
    by (simp add: classified_def empty_extracted_def)
  have cf: "camera_fallback None base = Inr (Some (rect_of cam))"
    using nb cam by (rule camera_fallback_embedded)
  have "\<exists>b1. stream_reconcile e r ?rid ?dels None = Inr (r1, Some (rect_of cam), Some b1)"
    using nb by (simp add: stream_reconcile_def tr sl rr cf without_deleted_def)
  then obtain b1 where
    rc: "stream_reconcile e r ?rid ?dels None = Inr (r1, Some (rect_of cam), Some b1)" ..
  have "partialInput e r parsed = stream_render e r1 (drawElements x) (Some (rect_of cam)) (Some b1)"
    by (simp add: partialInput_def sd x vx doStream_def rc)
  with rn show ?thesis
    by (auto simp: stream_render_branches split: if_splits)
qed

text \<open>
  C5. A chunk without a viewport directive whose last restore directive names a usable
  checkpoint, and a base scene that carries a camera record: on the final path (the
  checkpoint fetched, no user edits, no failure) the one render call gets the rectangle
  of that record as its viewport; on the partial path (the base being the scene
  \<^verbatim>\<open>doStream\<close> holds after its fetch) every render call does. A render call given a
  viewport reports that viewport and not the default rectangle.
\<close>

theorem restore_uses_embedded_camera:
  assumes "JNull \<notin> set parsed"
    and "of_kind ViewportUpdate parsed = []"
    and "of_kind RestoreCheckpoint parsed \<noteq> []"
    and "truthy (getp (last (of_kind RestoreCheckpoint parsed)) ''id'')"
    and "JNull \<notin> set base"
    and "embedded_camera base = Some cam"
  shows "(loadCheckpoint e = Some load \<and>
          load (getp (last (of_kind RestoreCheckpoint parsed)) ''id'') = Some saved \<and>
          getp saved ''elements'' = Some (JArr base) \<and>
          editedElements e = None \<and> failed (finalInput e r parsed) = None \<longrightarrow>
          (\<exists>allc els b.
             effects (finalInput e r parsed)
               = [CaptureInitialElements allc, OnElements allc,
                  RenderSvgPreview els (Some (rect_of cam)) (Some b)] \<and>
             (render_viewport els (Some (rect_of cam)) (Some b) = None \<or>
              render_viewport els (Some (rect_of cam)) (Some b) = Some (rect_of cam)))) \<and>
         (stream_load e r (getp (last (of_kind RestoreCheckpoint parsed)) ''id'') = Inr r1 \<and>
          restoredRef r1 = Some (i, base) \<longrightarrow>
          (\<forall>els vp b. RenderSvgPreview els vp b \<in> set (effects (partialInput e r parsed)) \<longrightarrow>
             vp = Some (rect_of cam) \<and>
             (render_viewport els vp b = None \<or> render_viewport els vp b = Some (rect_of cam))))"
proof (intro conjI impI allI)
  assume a: "loadCheckpoint e = Some load \<and>
          load (getp (last (of_kind RestoreCheckpoint parsed)) ''id'') = Some saved \<and>
          getp saved ''elements'' = Some (JArr base) \<and>
          editedElements e = None \<and> failed (finalInput e r parsed) = None"
  from final_camera [OF assms(1-4) _ _ _ assms(5,6)] a
  obtain allc els b where "effects (finalInput e r parsed)
           = [CaptureInitialElements allc, OnElements allc,
              RenderSvgPreview els (Some (rect_of cam)) (Some b)]"
    by blast
  with render_viewport_given [of els "rect_of cam" "Some b"]
  show "\<exists>allc els b.
             effects (finalInput e r parsed)
               = [CaptureInitialElements allc, OnElements allc,
                  RenderSvgPreview els (Some (rect_of cam)) (Some b)] \<and>
             (render_viewport els (Some (rect_of cam)) (Some b) = None \<or>
              render_viewport els (Some (rect_of cam)) (Some b) = Some (rect_of cam))"
    by blast
next
  fix els vp b
  assume a: "stream_load e r (getp (last (of_kind RestoreCheckpoint parsed)) ''id'') = Inr r1 \<and>
          restoredRef r1 = Some (i, base)"
    and rn: "RenderSvgPreview els vp b \<in> set (effects (partialInput e r parsed))"
  from stream_camera [OF assms(1-4) _ _ assms(5,6) rn] a
  show v: "vp = Some (rect_of cam)" by blast
  show "render_viewport els vp b = None \<or> render_viewport els vp b = Some (rect_of cam)"
    unfolding v by (rule render_viewport_given)
qed

lemma convert_example:
  "convertRawElements env1 [rect_el ''b0'', camera_el] = Inr [rect_el ''b0'', camera_el]"
  "convertRawElements env1 [rect_el ''a''] = Inr [rect_el ''a'']"
  by (simp_all add: convertRawElements_def env1_def env0_def rect_el_def camera_el_def
      pseudoTypes_def with_label_defaults_def with_font_def Let_def)

theorem restore_uses_embedded_camera_witness:
  "effects (finalInput env1 \<lparr> latestRef = [], restoredRef = None \<rparr> [restore_el, rect_el ''a''])
     = [CaptureInitialElements [rect_el ''b0'', camera_el, rect_el ''a''],
        OnElements [rect_el ''b0'', camera_el, rect_el ''a''],
        RenderSvgPreview [rect_el ''a'']
          (Some \<lparr> vp_x = Some (JNum 5), vp_y = Some (JNum 6),
                   vp_width = Some (JNum 400), vp_height = Some (JNum 300) \<rparr>)
          (Some [rect_el ''b0'', camera_el])] \<and>
   (\<exists>els b. RenderSvgPreview els
       (Some \<lparr> vp_x = Some (JNum 5), vp_y = Some (JNum 6),
                vp_width = Some (JNum 400), vp_height = Some (JNum 300) \<rparr>) b
      \<in> set (effects (partialInput env1 \<lparr> latestRef = [], restoredRef = None \<rparr>
                          [restore_el, rect_el ''a'', rect_el ''b''])))"
proof -
  let ?r = "\<lparr> latestRef = [], restoredRef = None \<rparr>"
  let ?pf = "[restore_el, rect_el ''a'']"
  let ?ps = "[restore_el, rect_el ''a'', rect_el ''b'']"
  let ?base = "[rect_el ''b0'', camera_el]"
  let ?saved = "JObj [(''elements'', JArr ?base)]"
  let ?load = "\<lambda>i. if i = Some (JStr ''cp1'') then Some ?saved else None"
  have k: "of_kind RestoreCheckpoint ?pf = [restore_el]" "of_kind ViewportUpdate ?pf = []"
    "of_kind RestoreCheckpoint ?ps = [restore_el]" "of_kind ViewportUpdate ?ps = []"
    by (simp_all add: of_kind_def kind_of_def restore_el_def rect_el_def)
  have n: "JNull \<notin> set ?pf" "JNull \<notin> set ?ps" "JNull \<notin> set ?base"
    by (simp_all add: restore_el_def rect_el_def camera_el_def)
  have i: "getp restore_el ''id'' = Some (JStr ''cp1'')"
    by (simp add: restore_el_def)
  have c: "embedded_camera ?base = Some camera_el"
    by (simp add: embedded_camera_def rect_el_def camera_el_def)
  have rc: "rect_of camera_el = \<lparr> vp_x = Some (JNum 5), vp_y = Some (JNum 6),
                   vp_width = Some (JNum 400), vp_height = Some (JNum 300) \<rparr>"
    by (simp add: rect_of_def camera_el_def)
  have ld: "loadCheckpoint env1 = Some ?load" "editedElements env1 = None"
    by (simp_all add: env1_def env0_def)
  have xf: "extractViewportAndElements ?pf
      = Inr \<lparr> viewport = None, drawElements = [rect_el ''a''], restoreId = Some (JStr ''cp1''),
              deleteIds = {} \<rparr>"
    by (simp add: extractViewportAndElements_def empty_extracted_def restore_el_def rect_el_def)
  have fl: "final_load env1 (Some (JStr ''cp1'')) {} None = Inr (Some (rect_of camera_el), Some ?base)"
    by (simp add: final_load_def ld elements_of_def camera_fallback_embedded [OF n(3) c]
        convert_example)
  have fin: "finalInput env1 ?r ?pf
      = finish (?r\<lparr>latestRef := [rect_el ''a'']\<rparr>)
          [CaptureInitialElements (?base @ [rect_el ''a'']), OnElements (?base @ [rect_el ''a'']),
           RenderSvgPreview [rect_el ''a''] (Some (rect_of camera_el)) (Some ?base)]"
    by (simp add: finalInput_def xf doFinal_def fl convert_example ld Let_def)
  have sl: "stream_load env1 ?r (Some (JStr ''cp1''))
      = Inr (?r\<lparr>restoredRef := Some (Some (JStr ''cp1''), ?base)\<rparr>)"
    by (simp add: stream_load_def ld elements_of_def convert_example)
  have xs: "extractViewportAndElements (excludeIncompleteLastItem ?ps)
      = Inr \<lparr> viewport = None, drawElements = [rect_el ''a''], restoreId = Some (JStr ''cp1''),
              deleteIds = {} \<rparr>"
    by (simp add: excludeIncompleteLastItem_def extractViewportAndElements_def empty_extracted_def
        restore_el_def rect_el_def)
  have sd: "stream_directives ?ps (Some JNull, {}) = Inr (Some (JStr ''cp1''), {})"
    by (simp add: restore_el_def rect_el_def)
  have rec: "stream_reconcile env1 ?r (Some (JStr ''cp1'')) {} None
      = Inr (?r\<lparr>restoredRef := Some (Some (JStr ''cp1''), ?base)\<rparr>, Some (rect_of camera_el), Some ?base)"
    by (simp add: stream_reconcile_def sl camera_fallback_embedded [OF n(3) c])
  have str: "RenderSvgPreview (jittered env1 [rect_el ''a'']) (Some (rect_of camera_el)) (Some ?base)
      \<in> set (effects (partialInput env1 ?r ?ps))"
    unfolding partialInput_def sd xs
    by (simp add: doStream_def rec stream_render_def Let_def)
  have okf: "failed (finalInput env1 ?r ?pf) = None"
    by (simp add: fin)
  have t1: "truthy (getp (last (of_kind RestoreCheckpoint ?pf)) ''id'')"
    and t2: "truthy (getp (last (of_kind RestoreCheckpoint ?ps)) ''id'')"
    by (simp_all add: k i)
  have ne1: "of_kind RestoreCheckpoint ?pf \<noteq> []" and ne2: "of_kind RestoreCheckpoint ?ps \<noteq> []"
    by (simp_all add: k)
  have a1: "loadCheckpoint env1 = Some ?load \<and>
          ?load (getp (last (of_kind RestoreCheckpoint ?pf)) ''id'') = Some ?saved \<and>
          getp ?saved ''elements'' = Some (JArr ?base) \<and>
          editedElements env1 = None \<and> failed (finalInput env1 ?r ?pf) = None"
    by (simp add: ld k i okf)
  have a2: "stream_load env1 ?r (getp (last (of_kind RestoreCheckpoint ?ps)) ''id'')
              = Inr (?r\<lparr>restoredRef := Some (Some (JStr ''cp1''), ?base)\<rparr>) \<and>
            restoredRef (?r\<lparr>restoredRef := Some (Some (JStr ''cp1''), ?base)\<rparr>)
              = Some (Some (JStr ''cp1''), ?base)"
    by (simp add: k i sl)
  from restore_uses_embedded_camera [OF n(1) k(2) ne1 t1 n(3) c, of env1 ?load ?saved ?r]
    a1 fin
  have f: "effects (finalInput env1 ?r ?pf)
     = [CaptureInitialElements [rect_el ''b0'', camera_el, rect_el ''a''],
        OnElements [rect_el ''b0'', camera_el, rect_el ''a''],
        RenderSvgPreview [rect_el ''a''] (Some (rect_of camera_el)) (Some ?base)]"
    by simp
  from restore_uses_embedded_camera [OF n(2) k(4) ne2 t2 n(3) c, of env1 ?load ?saved ?r] a2 str
  have "\<exists>els b. RenderSvgPreview els (Some (rect_of camera_el)) b
                  \<in> set (effects (partialInput env1 ?r ?ps))"
    by blast
  with f show ?thesis unfolding rc by blast
qed

lemma doStream_nothing_new:
  "RenderSvgPreview els vp b \<in> set (effects (doStream e r rid dels vp0 [])) \<Longrightarrow> els = []"
  by (auto simp: doStream_def stream_render_branches split: sum.splits prod.splits if_splits)

lemma partialInput_single:
  assumes "length parsed = 1"
    and "RenderSvgPreview els vp b \<in> set (effects (partialInput e r parsed))"
  shows "els = []"
proof -
  have x: "extractViewportAndElements (excludeIncompleteLastItem parsed) = Inr empty_extracted"
    using assms(1)
    by (simp add: excludeIncompleteLastItem_def extractViewportAndElements_def empty_extracted_def)
  show ?thesis
  proof (cases "stream_directives parsed (Some JNull, {})")
    case (Inl err)
    with assms(2) show ?thesis by (simp add: partialInput_def)
  next
    case (Inr p)
    obtain rid dels where "p = (rid, dels)" by (cases p)
    with Inr assms(2) have "RenderSvgPreview els vp b
        \<in> set (effects (doStream e r rid dels None []))"
      by (simp add: partialInput_def x empty_extracted_def)
    then show ?thesis by (rule doStream_nothing_new)
  qed
qed

text \<open>
  C9. For an array of length zero or one the helper returns the empty array, and for an
  array of length at least two it returns exactly the first \<open>n - 1\<close> elements; so on
  the partial path a recovered sequence of exactly one element never has that element
  rendered: every render call of such a chunk draws no new element.
\<close>

theorem excludeIncompleteLastItem_spec:
  "(length arr \<le> 1 \<longrightarrow> excludeIncompleteLastItem arr = []) \<and>
   (2 \<le> length arr \<longrightarrow> excludeIncompleteLastItem arr = take (length arr - 1) arr) \<and>
   (length arr = 1 \<longrightarrow>
      (\<forall>e r els vp b. RenderSvgPreview els vp b \<in> set (effects (partialInput e r arr)) \<longrightarrow> els = []))"
  using partialInput_single [of arr]
  by (auto simp: excludeIncompleteLastItem_def butlast_conv_take)

theorem excludeIncompleteLastItem_spec_witness:
  "excludeIncompleteLastItem [rect_el ''a''] = [] \<and>
   excludeIncompleteLastItem [JNum 1, JNum 2, JNum 3] = [JNum 1, JNum 2] \<and>
   effects (partialInput env0 \<lparr> latestRef = [], restoredRef = None \<rparr> [rect_el ''a'']) = []"
proof -
  have "effects (partialInput env0 \<lparr> latestRef = [], restoredRef = None \<rparr> [rect_el ''a'']) = []"
    by (simp add: partialInput_def excludeIncompleteLastItem_def extractViewportAndElements_def
        empty_extracted_def rect_el_def doStream_def stream_reconcile_def stream_render_def
        finish_def)
  with excludeIncompleteLastItem_spec [of "[rect_el ''a'']"]
    excludeIncompleteLastItem_spec [of "[JNum 1, JNum 2, JNum 3]"]
  show ?thesis by simp
qed


end
